theory Spec2Isabelle
  imports Complex_Main "HOL-Library.Multiset"
begin

section \<open>The float64 values of the package\<close>

text \<open>
  Package \<open>mat\<close> stores and compares Go \<open>float64\<close> values. A value is a NaN, one of the
  two infinities, or a finite number. The finite numbers are carried by the real they
  denote, so the type below is a superset of the IEEE 754 binary64 values: a statement
  about every \<open>float64\<close> of the model covers every value the program can hold. The two
  zeros of IEEE 754 are one value here (\<open>Fin 0\<close>): Go's comparisons treat them as equal,
  and the package never divides by a value taken from its data nor reads a sign bit.
\<close>

datatype float64 = NaN | NegInf | Fin real | PosInf

text \<open>Go's \<open>==\<close>, \<open>!=\<close> and \<open>>\<close> on \<open>float64\<close>: every comparison with a NaN is false,
  except \<open>!=\<close>, which is the negation of \<open>==\<close>.\<close>

definition f_eq :: "float64 \<Rightarrow> float64 \<Rightarrow> bool" where
  "f_eq x y = (x \<noteq> NaN \<and> y \<noteq> NaN \<and> x = y)"

definition f_ne :: "float64 \<Rightarrow> float64 \<Rightarrow> bool" where
  "f_ne x y = (\<not> f_eq x y)"

fun f_gt :: "float64 \<Rightarrow> float64 \<Rightarrow> bool" where
  "f_gt NaN y = False"
| "f_gt x NaN = False"
| "f_gt NegInf y = False"
| "f_gt x NegInf = True"
| "f_gt PosInf y = (y \<noteq> PosInf)"
| "f_gt (Fin a) PosInf = False"
| "f_gt (Fin a) (Fin b) = (b < a)"


text \<open>
  Rounding to nearest, ties to even, of a real to binary64: 53 significant bits, least
  exponent \<open>-1074\<close>, overflow to an infinity from \<open>2 ^ 1024\<close> on.
\<close>

definition round_half_even :: "real \<Rightarrow> int" where
  "round_half_even x =
     (let f = \<lfloor>x\<rfloor>; d = x - of_int f
      in if d < 1 / 2 then f else if 1 / 2 < d then f + 1 else if even f then f else f + 1)"

definition round_to_float64 :: "real \<Rightarrow> float64" where
  "round_to_float64 x =
     (if x = 0 then Fin 0
      else
        let e = max (\<lfloor>log 2 \<bar>x\<bar>\<rfloor> - 52) (- 1074);
            m = round_half_even (\<bar>x\<bar> / 2 powr (of_int e));
            y = of_int m * 2 powr (of_int e)
        in if 2 ^ 1024 \<le> y then (if x < 0 then NegInf else PosInf)
           else Fin (if x < 0 then - y else y))"

text \<open>The arithmetic of Go on \<open>float64\<close>: the IEEE 754 special cases, and the exact
  result rounded where both operands are finite.\<close>

fun f_add :: "float64 \<Rightarrow> float64 \<Rightarrow> float64" where
  "f_add NaN y = NaN"
| "f_add x NaN = NaN"
| "f_add PosInf NegInf = NaN"
| "f_add NegInf PosInf = NaN"
| "f_add PosInf y = PosInf"
| "f_add NegInf y = NegInf"
| "f_add (Fin a) PosInf = PosInf"
| "f_add (Fin a) NegInf = NegInf"
| "f_add (Fin a) (Fin b) = round_to_float64 (a + b)"

fun f_sub :: "float64 \<Rightarrow> float64 \<Rightarrow> float64" where
  "f_sub NaN y = NaN"
| "f_sub x NaN = NaN"
| "f_sub PosInf PosInf = NaN"
| "f_sub NegInf NegInf = NaN"
| "f_sub PosInf y = PosInf"
| "f_sub NegInf y = NegInf"
| "f_sub (Fin a) PosInf = NegInf"
| "f_sub (Fin a) NegInf = PosInf"
| "f_sub (Fin a) (Fin b) = round_to_float64 (a - b)"

text \<open>Division. The only divisors of the package are converted lengths, so a zero
  divisor is the positive zero.\<close>

fun f_div :: "float64 \<Rightarrow> float64 \<Rightarrow> float64" where
  "f_div NaN y = NaN"
| "f_div x NaN = NaN"
| "f_div (Fin a) (Fin b) =
     (if b = 0 then (if a = 0 then NaN else if 0 < a then PosInf else NegInf)
      else round_to_float64 (a / b))"
| "f_div (Fin a) y = Fin 0"
| "f_div PosInf (Fin b) = (if 0 \<le> b then PosInf else NegInf)"
| "f_div NegInf (Fin b) = (if 0 \<le> b then NegInf else PosInf)"
| "f_div x y = NaN"

text \<open>\<open>float64(n)\<close> for an \<open>int\<close> \<open>n\<close>.\<close>

definition float64_of_int :: "int \<Rightarrow> float64" where
  "float64_of_int n = round_to_float64 (of_int n)"

text \<open>\<open>math.Abs\<close>, \<open>math.Sqrt\<close>, \<open>math.Inf(-1)\<close>, and \<open>math.Pow(x, 2)\<close>. The library
  computes the square of a finite \<open>x\<close> from its mantissa and exponent; it is taken here
  as the rounded square.\<close>

fun Abs :: "float64 \<Rightarrow> float64" where
  "Abs NaN = NaN"
| "Abs NegInf = PosInf"
| "Abs PosInf = PosInf"
| "Abs (Fin a) = Fin \<bar>a\<bar>"

fun Sqrt :: "float64 \<Rightarrow> float64" where
  "Sqrt NaN = NaN"
| "Sqrt NegInf = NaN"
| "Sqrt PosInf = PosInf"
| "Sqrt (Fin a) = (if a < 0 then NaN else round_to_float64 (sqrt a))"

fun Pow2 :: "float64 \<Rightarrow> float64" where
  "Pow2 NaN = NaN"
| "Pow2 NegInf = PosInf"
| "Pow2 PosInf = PosInf"
| "Pow2 (Fin a) = round_to_float64 (a * a)"


section \<open>Containers and errors\<close>

text \<open>
  \<open>Vector\<close> is \<open>[]float64\<close>; \<open>SparseVector\<close> is \<open>map[int]float64\<close>; the two matrices are
  structs with the one field \<open>Vectors\<close>. A \<open>Matrix\<close> holds pointers to its rows; every
  row is built by one function and never written again, so the rows are modelled by
  value. A nil slice and an empty slice are both \<open>[]\<close>.
\<close>

type_synonym Vector = "float64 list"

type_synonym SparseVector = "int \<rightharpoonup> float64"

record SparseMatrix =
  SVectors :: "SparseVector list"

record Matrix =
  Vectors :: "Vector list"

text \<open>The errors of the package, one constructor for each \<open>fmt.Errorf\<close> with the values
  it formats. \<open>Wrap\<close> is \<open>errors.Wrap\<close> with the row index of the message.\<close>

datatype num_error = ErrSyntax | ErrRange

datatype io_error = EOF | ReadFault

datatype error =
    UnableToOpen string
  | ReadErr io_error
  | TooFewColumns
  | CorruptedData
  | WrongDataFormat string
  | CannotParseInt string num_error
  | CannotParseFloat string num_error
  | CannotConvertFloat string num_error
  | RowDimension int int
  | DifferentVectorLength int int
  | ElementMismatch int float64 float64
  | EmptyVector
  | RowMatrixMismatch int int
  | Wrap int error

section \<open>Library functions of the readers\<close>

text \<open>
  A Go string is a sequence of bytes. The readers use \<open>bufio.Reader.ReadString\<close>,
  \<open>strings.TrimSpace\<close>, \<open>strings.Split\<close>, \<open>strconv.ParseUint\<close> and
  \<open>strconv.ParseFloat\<close>. The first four are modelled after the Go library;
  \<open>ParseFloat\<close> is a parameter of the readers.
\<close>

type_synonym parse_float = "string \<Rightarrow> num_error + float64"

text \<open>
  An open file: the bytes not read yet, and the error the file reports once they are
  used up (\<open>EOF\<close> for a file that reads to its end). \<open>ReadString\<close> returns the bytes
  up to and including the first delimiter; with no delimiter left it returns the rest
  with that error.
\<close>

record reader =
  pending :: string
  at_end :: io_error

type_synonym filesystem = "string \<rightharpoonup> reader"

definition ReadString :: "reader \<Rightarrow> char \<Rightarrow> (string \<times> io_error option) \<times> reader" where
  "ReadString r delim =
     (if delim \<in> set (pending r)
      then ((takeWhile (\<lambda>c. c \<noteq> delim) (pending r) @ [delim], None),
            r\<lparr>pending := tl (dropWhile (\<lambda>c. c \<noteq> delim) (pending r))\<rparr>)
      else ((pending r, Some (at_end r)), r\<lparr>pending := []\<rparr>))"

text \<open>The UTF-8 encodings of the runes for which \<open>unicode.IsSpace\<close> holds.\<close>

definition white_space :: "string list" where
  "white_space =
     [[CHR 0x09], [CHR 0x0A], [CHR 0x0B], [CHR 0x0C], [CHR 0x0D], [CHR 0x20],
      [CHR 0xC2, CHR 0x85], [CHR 0xC2, CHR 0xA0], [CHR 0xE1, CHR 0x9A, CHR 0x80],
      [CHR 0xE2, CHR 0x80, CHR 0x80], [CHR 0xE2, CHR 0x80, CHR 0x81],
      [CHR 0xE2, CHR 0x80, CHR 0x82], [CHR 0xE2, CHR 0x80, CHR 0x83],
      [CHR 0xE2, CHR 0x80, CHR 0x84], [CHR 0xE2, CHR 0x80, CHR 0x85],
      [CHR 0xE2, CHR 0x80, CHR 0x86], [CHR 0xE2, CHR 0x80, CHR 0x87],
      [CHR 0xE2, CHR 0x80, CHR 0x88], [CHR 0xE2, CHR 0x80, CHR 0x89],
      [CHR 0xE2, CHR 0x80, CHR 0x8A], [CHR 0xE2, CHR 0x80, CHR 0xA8],
      [CHR 0xE2, CHR 0x80, CHR 0xA9], [CHR 0xE2, CHR 0x80, CHR 0xAF],
      [CHR 0xE2, CHR 0x81, CHR 0x9F], [CHR 0xE3, CHR 0x80, CHR 0x80]]"

function strip :: "string list \<Rightarrow> string \<Rightarrow> string" where
  "strip ws s =
     (case find (\<lambda>w. w \<noteq> [] \<and> take (length w) s = w) ws of
        None \<Rightarrow> s
      | Some w \<Rightarrow> strip ws (drop (length w) s))"
  by pat_completeness auto
termination
proof (relation "measure (\<lambda>(ws, s). length s)")
  fix ws :: "string list" and s w :: string
  assume "find (\<lambda>w. w \<noteq> [] \<and> take (length w) s = w) ws = Some w"
  then have "w \<noteq> []" "take (length w) s = w"
    by (auto simp: find_Some_iff)
  then have "s \<noteq> []" by auto
  with \<open>w \<noteq> []\<close> show "((ws, drop (length w) s), (ws, s)) \<in> measure (\<lambda>(ws, s). length s)"
    by simp
qed simp

declare strip.simps [simp del]

definition TrimSpace :: "string \<Rightarrow> string" where
  "TrimSpace s = rev (strip (map rev white_space) (rev (strip white_space s)))"

text \<open>\<open>strings.Split\<close>: the pieces between the occurrences of a non-empty separator,
  found from the left; with the empty separator, the UTF-8 sequences of the string, an
  invalid byte alone.\<close>

fun split_on :: "string \<Rightarrow> string \<Rightarrow> string \<Rightarrow> string list" where
  "split_on sep cur [] = [cur]"
| "split_on sep cur (c # cs) =
     (if take (length sep) (c # cs) = sep
      then cur # split_on sep [] (drop (length sep - 1) cs)
      else split_on sep (cur @ [c]) cs)"

definition utf8_shape :: "nat \<Rightarrow> (nat \<times> nat \<times> nat) option" where
  "utf8_shape b =
     (if 0xC2 \<le> b \<and> b \<le> 0xDF then Some (2, 0x80, 0xBF)
      else if b = 0xE0 then Some (3, 0xA0, 0xBF)
      else if (0xE1 \<le> b \<and> b \<le> 0xEC) \<or> b = 0xEE \<or> b = 0xEF then Some (3, 0x80, 0xBF)
      else if b = 0xED then Some (3, 0x80, 0x9F)
      else if b = 0xF0 then Some (4, 0x90, 0xBF)
      else if 0xF1 \<le> b \<and> b \<le> 0xF3 then Some (4, 0x80, 0xBF)
      else if b = 0xF4 then Some (4, 0x80, 0x8F)
      else None)"

definition continuation :: "char \<Rightarrow> bool" where
  "continuation c = (0x80 \<le> (of_char c :: nat) \<and> (of_char c :: nat) \<le> 0xBF)"

definition utf8_width :: "string \<Rightarrow> nat" where
  "utf8_width s =
     (case s of
        [] \<Rightarrow> 0
      | b0 # bs \<Rightarrow>
          (case utf8_shape (of_char b0) of
             None \<Rightarrow> 1
           | Some (sz, lo, hi) \<Rightarrow>
               if length s < sz then 1
               else if (of_char (s ! 1) :: nat) < lo \<or> hi < (of_char (s ! 1) :: nat) then 1
               else if sz \<le> 2 then 2
               else if \<not> continuation (s ! 2) then 1
               else if sz \<le> 3 then 3
               else if \<not> continuation (s ! 3) then 1
               else 4))"

function explode :: "string \<Rightarrow> string list" where
  "explode s =
     (if s = [] then [] else take (utf8_width s) s # explode (drop (utf8_width s) s))"
  by pat_completeness auto
termination
proof (relation "measure length")
  fix s :: string
  assume "s \<noteq> []"
  then have "0 < utf8_width s"
    by (cases s) (auto simp: utf8_width_def split: option.splits)
  with \<open>s \<noteq> []\<close> show "(drop (utf8_width s) s, s) \<in> measure length"
    by simp
qed simp

declare explode.simps [simp del]

definition Split :: "string \<Rightarrow> string \<Rightarrow> string list" where
  "Split s sep = (if sep = [] then explode s else split_on sep [] s)"

text \<open>\<open>strconv.ParseUint(s, 10, 32)\<close>: the loop over the bytes of \<open>s\<close> with the value
  \<open>n\<close> read so far; \<open>cutoff\<close> is \<open>maxUint64 / 10 + 1\<close> and \<open>maxVal\<close> is \<open>2 ^ 32 - 1\<close>.\<close>

definition cutoff :: nat where
  "cutoff = (2 ^ 64 - 1) div 10 + 1"

definition maxVal :: nat where
  "maxVal = 2 ^ 32 - 1"

fun ParseUint_loop :: "string \<Rightarrow> nat \<Rightarrow> num_error + nat" where
  "ParseUint_loop [] n = Inr n"
| "ParseUint_loop (c # cs) n =
     (if 48 \<le> (of_char c :: nat) \<and> (of_char c :: nat) \<le> 57
      then if cutoff \<le> n then Inl ErrRange
           else let n1 = n * 10 + (of_char c - 48)
                in if maxVal < n1 then Inl ErrRange else ParseUint_loop cs n1
      else Inl ErrSyntax)"

definition ParseUint :: "string \<Rightarrow> num_error + nat" where
  "ParseUint s = (if s = [] then Inl ErrSyntax else ParseUint_loop s 0)"


section \<open>The readers\<close>

text \<open>\<open>ReadLibsvmFileToSparseMatrix\<close>: the loop over the tokens after the label, the
  loop over the lines, and the function. On a platform whose \<open>int\<close> has 64 bits,
  \<open>int(colIdx)\<close> is the value of \<open>colIdx\<close>.\<close>

fun libsvm_tokens :: "parse_float \<Rightarrow> string list \<Rightarrow> SparseVector \<Rightarrow> error + SparseVector" where
  "libsvm_tokens pf [] vec = Inr vec"
| "libsvm_tokens pf (tok # toks) vec =
     (if length tok = 0 then Inl CorruptedData
      else
        let pair = Split tok '':''
        in if length pair \<noteq> 2 then Inl (WrongDataFormat tok)
           else case ParseUint (pair ! 0) of
                  Inl e \<Rightarrow> Inl (CannotParseInt (pair ! 0) e)
                | Inr colIdx \<Rightarrow>
                    (case pf (pair ! 1) of
                       Inl e \<Rightarrow> Inl (CannotParseFloat (pair ! 1) e)
                     | Inr val \<Rightarrow> libsvm_tokens pf toks (vec(int colIdx \<mapsto> val))))"

definition libsvm_line :: "parse_float \<Rightarrow> string \<Rightarrow> error + SparseVector" where
  "libsvm_line pf line =
     (let tokens = Split line '' ''
      in if length tokens < 2 then Inl TooFewColumns
         else libsvm_tokens pf (tl tokens) Map.empty)"

function libsvm_loop :: "parse_float \<Rightarrow> reader \<Rightarrow> SparseMatrix \<Rightarrow> SparseMatrix \<times> error option" where
  "libsvm_loop pf rd sparseMatrix =
     (case ReadString rd (CHR 0x0A) of
        ((line, Some err), rd') \<Rightarrow>
          if err \<noteq> EOF then (\<lparr>SVectors = []\<rparr>, Some (ReadErr err)) else (sparseMatrix, None)
      | ((line, None), rd') \<Rightarrow>
          if TrimSpace line = [] then (sparseMatrix, None)
          else (case libsvm_line pf (TrimSpace line) of
                  Inl e \<Rightarrow> (\<lparr>SVectors = []\<rparr>, Some e)
                | Inr vec \<Rightarrow>
                    libsvm_loop pf rd' (sparseMatrix\<lparr>SVectors := SVectors sparseMatrix @ [vec]\<rparr>)))"
  by pat_completeness auto
termination
proof -
  have shorter: "length (dropWhile (\<lambda>c. c \<noteq> delim) xs) - Suc 0 < length xs"
    if "delim \<in> set xs" for delim :: char and xs
  proof -
    have "0 < length (dropWhile (\<lambda>c. c \<noteq> delim) xs)"
      using that by simp
    moreover have "length (dropWhile (\<lambda>c. c \<noteq> delim) xs) \<le> length xs"
      by (rule length_dropWhile_le)
    ultimately show ?thesis by linarith
  qed
  show ?thesis
    apply (relation "measure (\<lambda>(pf, rd, m). length (pending rd))")
     apply simp
    apply (auto simp: ReadString_def shorter split: if_splits)
    done
qed

declare libsvm_loop.simps [simp del]

definition ReadLibsvmFileToSparseMatrix ::
    "parse_float \<Rightarrow> filesystem \<Rightarrow> string \<Rightarrow> SparseMatrix \<times> error option" where
  "ReadLibsvmFileToSparseMatrix pf fs fileName =
     (case fs fileName of
        None \<Rightarrow> (\<lparr>SVectors = []\<rparr>, Some (UnableToOpen fileName))
      | Some file \<Rightarrow> libsvm_loop pf file \<lparr>SVectors = []\<rparr>)"

text \<open>\<open>ReadCSVFileToDenseMatrix\<close>: the loop over the tokens of a line, the loop
  over the lines with the variables \<open>matrix\<close>, \<open>colDim\<close> and \<open>row\<close>, and the
  function.\<close>

fun csv_tokens :: "parse_float \<Rightarrow> float64 \<Rightarrow> string list \<Rightarrow> Vector \<Rightarrow> error + Vector" where
  "csv_tokens pf defaultVal [] vec = Inr vec"
| "csv_tokens pf defaultVal (tok # toks) vec =
     (if length tok = 0 then csv_tokens pf defaultVal toks (vec @ [defaultVal])
      else case pf tok of
             Inl e \<Rightarrow> Inl (CannotConvertFloat tok e)
           | Inr v \<Rightarrow> csv_tokens pf defaultVal toks (vec @ [v]))"

function csv_loop ::
    "parse_float \<Rightarrow> string \<Rightarrow> float64 \<Rightarrow> reader \<Rightarrow> Matrix \<Rightarrow> int \<Rightarrow> int \<Rightarrow> Matrix \<times> error option" where
  "csv_loop pf delimiter defaultVal rd matrix colDim row =
     (case ReadString rd (CHR 0x0A) of
        ((line, err), rd') \<Rightarrow>
          if err \<noteq> None \<and> err \<noteq> Some EOF then (\<lparr>Vectors = []\<rparr>, Some (ReadErr (the err)))
          else if TrimSpace line = [] then (matrix, None)
          else (case csv_tokens pf defaultVal (Split (TrimSpace line) delimiter) [] of
                  Inl e \<Rightarrow> (\<lparr>Vectors = []\<rparr>, Some e)
                | Inr vec \<Rightarrow>
                    if colDim \<noteq> - 1 \<and> colDim \<noteq> int (length vec)
                    then (\<lparr>Vectors = []\<rparr>, Some (RowDimension row (int (length vec))))
                    else csv_loop pf delimiter defaultVal rd'
                           (matrix\<lparr>Vectors := Vectors matrix @ [vec]\<rparr>)
                           (if colDim = - 1 then int (length vec) else colDim) (row + 1)))"
  by pat_completeness auto
termination
proof -
  have shorter: "length (dropWhile (\<lambda>c. c \<noteq> delim) xs) - Suc 0 < length xs"
    if "delim \<in> set xs" for delim :: char and xs
  proof -
    have "0 < length (dropWhile (\<lambda>c. c \<noteq> delim) xs)"
      using that by simp
    moreover have "length (dropWhile (\<lambda>c. c \<noteq> delim) xs) \<le> length xs"
      by (rule length_dropWhile_le)
    ultimately show ?thesis by linarith
  qed
  have "find (\<lambda>w. w \<noteq> [] \<and> take (length w) [] = w) ws = None" for ws :: "string list"
    by (auto simp: find_None_iff)
  then have trim: "TrimSpace [] = []"
    by (simp add: TrimSpace_def strip.simps)
  show ?thesis
    apply (relation "measure (\<lambda>(pf, delimiter, defaultVal, rd, matrix, colDim, row). length (pending rd))")
     apply simp
    apply (auto simp: ReadString_def shorter trim split: if_splits)
    done
qed

declare csv_loop.simps [simp del]

definition ReadCSVFileToDenseMatrix ::
    "parse_float \<Rightarrow> filesystem \<Rightarrow> string \<Rightarrow> string \<Rightarrow> float64 \<Rightarrow> Matrix \<times> error option" where
  "ReadCSVFileToDenseMatrix pf fs fileName delimiter defaultVal =
     (case fs fileName of
        None \<Rightarrow> (\<lparr>Vectors = []\<rparr>, Some (UnableToOpen fileName))
      | Some file \<Rightarrow> csv_loop pf delimiter defaultVal file \<lparr>Vectors = []\<rparr> (- 1) 0)"


section \<open>Conversions\<close>

text \<open>
  \<open>SparseMatrix.ToFloat64\<close> ranges over each map. Go leaves the iteration order of a map
  unspecified, so the result is not a function of the matrix: \<open>range_values v out\<close> holds
  when \<open>out\<close> lists the values of \<open>v\<close> in some order of its keys, each key once.
\<close>

definition range_values :: "SparseVector \<Rightarrow> float64 list \<Rightarrow> bool" where
  "range_values v out =
     (\<exists>ks. distinct ks \<and> set ks = dom v \<and> out = map (\<lambda>k. the (v k)) ks)"

definition SparseMatrix_ToFloat64 :: "SparseMatrix \<Rightarrow> float64 list list \<Rightarrow> bool" where
  "SparseMatrix_ToFloat64 m result = list_all2 range_values (SVectors m) result"

text \<open>\<open>GetSparseMatrixFromSlice\<close>: the inner loop over \<open>j\<close>, then the loop over the rows.\<close>

fun sparse_row :: "float64 list \<Rightarrow> int \<Rightarrow> SparseVector \<Rightarrow> SparseVector" where
  "sparse_row [] j vec = vec"
| "sparse_row (x # xs) j vec =
     sparse_row xs (j + 1) (if f_ne x (Fin 0) then vec(j \<mapsto> x) else vec)"

fun sparse_rows :: "float64 list list \<Rightarrow> SparseMatrix \<Rightarrow> SparseMatrix" where
  "sparse_rows [] sparseMatrix = sparseMatrix"
| "sparse_rows (row # rows) sparseMatrix =
     sparse_rows rows
       (sparseMatrix\<lparr>SVectors := SVectors sparseMatrix @ [sparse_row row 0 Map.empty]\<rparr>)"

definition GetSparseMatrixFromSlice :: "float64 list list \<Rightarrow> SparseMatrix \<times> error option" where
  "GetSparseMatrixFromSlice data = (sparse_rows data \<lparr>SVectors = []\<rparr>, None)"

section \<open>Comparison and metrics\<close>

text \<open>\<open>IsEqualVectors\<close>: the loop returns at the first index whose absolute difference
  exceeds the threshold.\<close>

definition IsEqualVectors :: "Vector \<Rightarrow> Vector \<Rightarrow> float64 \<Rightarrow> error option" where
  "IsEqualVectors v1 v2 threshold =
     (if length v1 \<noteq> length v2
      then Some (DifferentVectorLength (int (length v1)) (int (length v2)))
      else case find (\<lambda>i. f_gt (Abs (f_sub (v1 ! i) (v2 ! i))) threshold) [0..<length v1] of
             Some i \<Rightarrow> Some (ElementMismatch (int i) (v1 ! i) (v2 ! i))
           | None \<Rightarrow> None)"



text \<open>\<open>GetVectorRMSE\<close> and \<open>GetMatrixRMSE\<close>.\<close>

definition GetVectorRMSE :: "Vector \<Rightarrow> Vector \<Rightarrow> float64 \<times> error option" where
  "GetVectorRMSE v1 v2 =
     (if length v1 \<noteq> length v2
      then (Fin 0, Some (DifferentVectorLength (int (length v1)) (int (length v2))))
      else
        let tot = fold (\<lambda>i tot. f_add tot (Pow2 (f_sub (v1 ! i) (v2 ! i))))
                      [0..<length v1] (Fin 0)
        in (Sqrt (f_div tot (float64_of_int (int (length v1)))), None))"

fun rmse_rows :: "Matrix \<Rightarrow> Matrix \<Rightarrow> nat list \<Rightarrow> float64 \<Rightarrow> float64 \<times> error option" where
  "rmse_rows m1 m2 [] tot =
     (f_div tot (float64_of_int (int (length (Vectors m1)))), None)"
| "rmse_rows m1 m2 (i # idxs) tot =
     (case GetVectorRMSE (Vectors m1 ! i) (Vectors m2 ! i) of
        (rmse, Some err) \<Rightarrow> (Fin 0, Some (Wrap (int i) err))
      | (rmse, None) \<Rightarrow> rmse_rows m1 m2 idxs (f_add tot rmse))"

definition GetMatrixRMSE :: "Matrix \<Rightarrow> Matrix \<Rightarrow> float64 \<times> error option" where
  "GetMatrixRMSE m1 m2 =
     (if length (Vectors m1) \<noteq> length (Vectors m2)
      then (Fin 0, Some (RowMatrixMismatch (int (length (Vectors m1))) (int (length (Vectors m2)))))
      else rmse_rows m1 m2 [0..<length (Vectors m1)] (Fin 0))"


section \<open>Auxiliary notions of the proofs\<close>

text \<open>The values stored in a sparse vector, as a multiset.\<close>

definition map_values :: "SparseVector \<Rightarrow> float64 multiset" where
  "map_values v = image_mset (\<lambda>k. the (v k)) (mset_set (dom v))"




section \<open>Comparisons of float64\<close>

lemma round_to_float64_zero: "round_to_float64 0 = Fin 0"
  by (simp add: round_to_float64_def)






lemma self_difference: "\<not> f_gt (Abs (f_sub x x)) (Fin 0)"
  by (cases x) (simp_all add: round_to_float64_zero)

section \<open>Sparse matrices from slices\<close>

lemma range_values_mset: "range_values v out \<Longrightarrow> mset out = map_values v"
  unfolding range_values_def map_values_def
  by (metis mset_map mset_set_set)

lemma range_values_exists: "finite (dom v) \<Longrightarrow> \<exists>out. range_values v out"
  unfolding range_values_def using finite_distinct_list by metis

lemma map_values_empty: "map_values Map.empty = {#}"
  by (simp add: map_values_def)

lemma map_values_update:
  assumes "finite (dom v)" and "k \<notin> dom v"
  shows "map_values (v(k \<mapsto> x)) = add_mset x (map_values v)"
proof -
  have "image_mset (\<lambda>j. the ((v(k \<mapsto> x)) j)) (mset_set (dom v)) =
        image_mset (\<lambda>j. the (v j)) (mset_set (dom v))"
    using assms by (intro image_mset_cong) auto
  with assms show ?thesis
    by (simp add: map_values_def)
qed

lemma sparse_row_apply:
  "sparse_row xs j vec k =
     (if j \<le> k \<and> k < j + int (length xs) \<and> f_ne (xs ! nat (k - j)) (Fin 0)
      then Some (xs ! nat (k - j)) else vec k)"
proof (induction xs arbitrary: j vec)
  case Nil
  show ?case by auto
next
  case (Cons x xs)
  have nth: "(x # xs) ! nat (k - j) = xs ! nat (k - (j + 1))" if "j + 1 \<le> k"
  proof -
    have "nat (k - j) = Suc (nat (k - (j + 1)))" using that by linarith
    then show ?thesis by simp
  qed
  show ?case
  proof (cases "j + 1 \<le> k")
    case True
    with nth show ?thesis by (simp add: Cons.IH)
  next
    case False
    then show ?thesis by (auto simp: Cons.IH)
  qed
qed

lemma sparse_row_dom:
  "dom (sparse_row xs 0 Map.empty) = {int i | i. i < length xs \<and> f_ne (xs ! i) (Fin 0)}"
proof (rule set_eqI)
  fix k
  show "k \<in> dom (sparse_row xs 0 Map.empty) \<longleftrightarrow>
        k \<in> {int i | i. i < length xs \<and> f_ne (xs ! i) (Fin 0)}"
  proof
    assume "k \<in> dom (sparse_row xs 0 Map.empty)"
    then have "0 \<le> k" "nat k < length xs" "f_ne (xs ! nat k) (Fin 0)"
      by (auto simp: sparse_row_apply dom_def split: if_splits)
    then have "k = int (nat k) \<and> nat k < length xs \<and> f_ne (xs ! nat k) (Fin 0)" by simp
    then show "k \<in> {int i | i. i < length xs \<and> f_ne (xs ! i) (Fin 0)}" by blast
  next
    assume "k \<in> {int i | i. i < length xs \<and> f_ne (xs ! i) (Fin 0)}"
    then show "k \<in> dom (sparse_row xs 0 Map.empty)"
      by (auto simp: sparse_row_apply dom_def)
  qed
qed

lemma sparse_row_finite: "finite (dom vec) \<Longrightarrow> finite (dom (sparse_row xs j vec))"
  by (induction xs arbitrary: j vec) simp_all

lemma sparse_row_values:
  "finite (dom vec) \<Longrightarrow> \<forall>k\<in>dom vec. k < j \<Longrightarrow>
   map_values (sparse_row xs j vec) = map_values vec + mset (filter (\<lambda>x. f_ne x (Fin 0)) xs)"
proof (induction xs arbitrary: j vec)
  case Nil
  show ?case by simp
next
  case (Cons x xs)
  have fresh: "j \<notin> dom vec" using Cons.prems by auto
  have below: "\<forall>k\<in>dom vec. k < j + 1"
  proof
    fix k assume "k \<in> dom vec"
    with Cons.prems(2) have "k < j" by (rule bspec)
    then show "k < j + 1" by simp
  qed
  show ?case
  proof (cases "f_ne x (Fin 0)")
    case True
    have "finite (dom (vec(j \<mapsto> x)))"
      using Cons.prems by simp
    moreover have "\<forall>k\<in>dom (vec(j \<mapsto> x)). k < j + 1"
    proof
      fix k assume "k \<in> dom (vec(j \<mapsto> x))"
      then have "k = j \<or> k \<in> dom vec" by auto
      with below show "k < j + 1" by auto
    qed
    ultimately have "map_values (sparse_row xs (j + 1) (vec(j \<mapsto> x))) =
          map_values (vec(j \<mapsto> x)) + mset (filter (\<lambda>x. f_ne x (Fin 0)) xs)"
      by (rule Cons.IH)
    with True fresh Cons.prems show ?thesis
      by (simp add: map_values_update)
  next
    case False
    have "map_values (sparse_row xs (j + 1) vec) =
          map_values vec + mset (filter (\<lambda>x. f_ne x (Fin 0)) xs)"
      using Cons.prems(1) below by (rule Cons.IH)
    with False show ?thesis by simp
  qed
qed

lemma sparse_rows_eq:
  "sparse_rows rows sm =
     sm\<lparr>SVectors := SVectors sm @ map (\<lambda>row. sparse_row row 0 Map.empty) rows\<rparr>"
  by (induction rows arbitrary: sm) simp_all

lemma GetSparseMatrixFromSlice_rows:
  "SVectors (fst (GetSparseMatrixFromSlice data)) = map (\<lambda>row. sparse_row row 0 Map.empty) data"
  by (simp add: GetSparseMatrixFromSlice_def sparse_rows_eq)

lemma ToFloat64_exists:
  "\<forall>v\<in>set vs. finite (dom v) \<Longrightarrow> \<exists>res. list_all2 range_values vs res"
proof (induction vs)
  case Nil
  show ?case by simp
next
  case (Cons v vs)
  then obtain res out where "list_all2 range_values vs res" "range_values v out"
    using range_values_exists by fastforce
  then have "list_all2 range_values (v # vs) (out # res)" by simp
  then show ?case by blast
qed

text \<open>
  C2. For every slice \<open>data\<close> of rows, \<open>GetSparseMatrixFromSlice\<close> builds one sparse
  vector for each row; the keys of the vector of row \<open>i\<close> are exactly the indices \<open>j\<close>
  with \<open>data[i][j] != 0\<close>, each holding \<open>data[i][j]\<close>. \<open>ToFloat64\<close> of the result has
  an outcome, and every outcome has as many rows as \<open>data\<close> and, in row \<open>i\<close>, exactly
  the values of \<open>data[i]\<close> that are \<open>!= 0\<close>, each as often as it occurs there (the
  order is the iteration order of the map); no zero is filled in.
\<close>

theorem sparse_round_trip:
  "length (SVectors (fst (GetSparseMatrixFromSlice data))) = length data \<and>
   (\<forall>i<length data.
      dom (SVectors (fst (GetSparseMatrixFromSlice data)) ! i) =
        {int j | j. j < length (data ! i) \<and> f_ne (data ! i ! j) (Fin 0)} \<and>
      (\<forall>j<length (data ! i). f_ne (data ! i ! j) (Fin 0) \<longrightarrow>
         (SVectors (fst (GetSparseMatrixFromSlice data)) ! i) (int j) = Some (data ! i ! j))) \<and>
   (\<exists>res. SparseMatrix_ToFloat64 (fst (GetSparseMatrixFromSlice data)) res) \<and>
   (\<forall>res. SparseMatrix_ToFloat64 (fst (GetSparseMatrixFromSlice data)) res \<longrightarrow>
      length res = length data \<and>
      (\<forall>i<length data. mset (res ! i) = mset (filter (\<lambda>x. f_ne x (Fin 0)) (data ! i))))"
proof (intro conjI allI impI)
  show "length (SVectors (fst (GetSparseMatrixFromSlice data))) = length data"
    by (simp add: GetSparseMatrixFromSlice_rows)
next
  fix i assume "i < length data"
  then show "dom (SVectors (fst (GetSparseMatrixFromSlice data)) ! i) =
        {int j | j. j < length (data ! i) \<and> f_ne (data ! i ! j) (Fin 0)}"
    by (simp add: GetSparseMatrixFromSlice_rows sparse_row_dom)
next
  fix i j assume "i < length data" "j < length (data ! i)" "f_ne (data ! i ! j) (Fin 0)"
  then show "(SVectors (fst (GetSparseMatrixFromSlice data)) ! i) (int j) = Some (data ! i ! j)"
    by (simp add: GetSparseMatrixFromSlice_rows sparse_row_apply)
next
  have "\<forall>v\<in>set (map (\<lambda>row. sparse_row row 0 Map.empty) data). finite (dom v)"
    by (auto simp: sparse_row_finite)
  then show "\<exists>res. SparseMatrix_ToFloat64 (fst (GetSparseMatrixFromSlice data)) res"
    unfolding SparseMatrix_ToFloat64_def GetSparseMatrixFromSlice_rows
    by (rule ToFloat64_exists)
next
  fix res assume "SparseMatrix_ToFloat64 (fst (GetSparseMatrixFromSlice data)) res"
  then have all2: "list_all2 range_values (map (\<lambda>row. sparse_row row 0 Map.empty) data) res"
    by (simp add: SparseMatrix_ToFloat64_def GetSparseMatrixFromSlice_rows)
  then show len: "length res = length data"
    by (auto dest: list_all2_lengthD)
  fix i assume i: "i < length data"
  with all2 have "range_values (sparse_row (data ! i) 0 Map.empty) (res ! i)"
    by (auto simp: list_all2_conv_all_nth)
  then have "mset (res ! i) = map_values (sparse_row (data ! i) 0 Map.empty)"
    by (rule range_values_mset)
  also have "\<dots> = map_values Map.empty + mset (filter (\<lambda>x. f_ne x (Fin 0)) (data ! i))"
    by (rule sparse_row_values) simp_all
  finally show "mset (res ! i) = mset (filter (\<lambda>x. f_ne x (Fin 0)) (data ! i))"
    by (simp add: map_values_empty)
qed

text \<open>The theorem at the slice \<open>[[0, 2, NaN], []]\<close>: one outcome of \<open>ToFloat64\<close> is
  \<open>[[NaN, 2], []]\<close>, and it holds the values \<open>!= 0\<close> of each row.\<close>

theorem sparse_round_trip_witness:
  "SparseMatrix_ToFloat64 (fst (GetSparseMatrixFromSlice [[Fin 0, Fin 2, NaN], []]))
     [[NaN, Fin 2], []] \<and>
   length [[NaN, Fin 2], [] :: float64 list] = length [[Fin 0, Fin 2, NaN], [] :: float64 list] \<and>
   mset ([[NaN, Fin 2], []] ! 0) =
     mset (filter (\<lambda>x. f_ne x (Fin 0)) ([[Fin 0, Fin 2, NaN], []] ! 0))"
proof -
  let ?data = "[[Fin 0, Fin 2, NaN], [] :: float64 list]"
  have rows: "SVectors (fst (GetSparseMatrixFromSlice ?data)) =
      [[1 \<mapsto> Fin 2, 2 \<mapsto> NaN], Map.empty]"
    by (simp add: GetSparseMatrixFromSlice_def f_ne_def f_eq_def)
  have r0: "range_values [1 \<mapsto> Fin 2, 2 \<mapsto> NaN] [NaN, Fin 2]"
    unfolding range_values_def by (rule exI [of _ "[2, 1]"]) auto
  have r1: "range_values Map.empty []"
    by (simp add: range_values_def)
  have h: "SparseMatrix_ToFloat64 (fst (GetSparseMatrixFromSlice ?data)) [[NaN, Fin 2], []]"
    by (simp add: SparseMatrix_ToFloat64_def rows r0 r1)
  have pos: "0 < length ?data"
    by simp
  from h pos sparse_round_trip [of ?data] show ?thesis
    by blast
qed

text \<open>
  C10. \<open>GetSparseMatrixFromSlice\<close> returns a nil error for every slice, the empty one
  and those with rows of unequal lengths included.
\<close>

theorem GetSparseMatrixFromSlice_no_error: "snd (GetSparseMatrixFromSlice data) = None"
  by (simp add: GetSparseMatrixFromSlice_def)

section \<open>Threshold equality\<close>

text \<open>
  C8. For every vector \<open>v\<close>, with NaN or infinite elements or without,
  \<open>IsEqualVectors(v, v, 0)\<close> returns nil: the difference of an element with itself is
  zero or NaN, and neither is greater than the threshold.
\<close>

theorem IsEqualVectors_reflexive: "IsEqualVectors v v (Fin 0) = None"
proof -
  have "find (\<lambda>i. f_gt (Abs (f_sub (v ! i) (v ! i))) (Fin 0)) [0..<length v] = None"
    by (simp add: find_None_iff self_difference)
  then show ?thesis
    by (simp add: IsEqualVectors_def)
qed

section \<open>Arg-max\<close>






end
